theory Spec2Isabelle
  imports Complex_Main "HOL-Library.Sublist" "HOL-Library.Char_ord" "HOL-Library.List_Lexorder"
    "HOL-Library.AList"
begin

section \<open>Python values\<close>

text \<open>
  A Python float is a finite value or one of the three special values; every finite
  double is a rational, and rounding to 53 bits is not modelled.
\<close>

datatype pyfloat = Finite rat | PosInf | NegInf | NaN

text \<open>
  The values \<open>json.loads\<close> and \<open>ast.literal_eval\<close> produce. A dict is an association
  list in insertion order whose first binding of a key is the one that counts.
\<close>

datatype pyval =
    PNone
  | PBool bool
  | PInt int
  | PFloat pyfloat
  | PStr string
  | PList "pyval list"
  | PDict "(string \<times> pyval) list"

text \<open>The outcome of a library parser: a value, the parse error the caller catches
  (\<open>ValueError\<close>, \<open>SyntaxError\<close>, \<open>json.JSONDecodeError\<close>), or any other exception.\<close>

datatype 'a parse = Parsed 'a | Malformed | Crashed string

text \<open>
  The builtins and standard-library functions the source calls. They are not code of the
  repository, so the model takes them as parameters.
\<close>

record builtins =
  json_loads :: "string \<Rightarrow> pyval parse"
  literal_eval :: "string \<Rightarrow> pyval parse"
  float_of_str :: "string \<Rightarrow> pyfloat option"
  int_of_str :: "string \<Rightarrow> int option"
  str_of_float :: "rat \<Rightarrow> string"
  str_of_val :: "pyval \<Rightarrow> string"

datatype py_error =
    TimeoutError string
  | RuntimeError string
  | ValueError string
  | OverflowError string
  | TypeError string
  | OtherError string

text \<open>\<open>str(exc)\<close> of an exception built from one message.\<close>

fun error_text :: "py_error \<Rightarrow> string" where
  "error_text (TimeoutError m) = m"
| "error_text (RuntimeError m) = m"
| "error_text (ValueError m) = m"
| "error_text (OverflowError m) = m"
| "error_text (TypeError m) = m"
| "error_text (OtherError m) = m"

text \<open>\<open>d.get(k)\<close>: the value, or \<open>None\<close> when the key is absent.\<close>

definition dict_get :: "(string \<times> pyval) list \<Rightarrow> string \<Rightarrow> pyval" where
  "dict_get d k = (case map_of d k of Some v \<Rightarrow> v | None \<Rightarrow> PNone)"

text \<open>Truth value of an object, as \<open>if x\<close>, \<open>x or y\<close> and \<open>not x\<close> test it.\<close>

fun pyfloat_nonzero :: "pyfloat \<Rightarrow> bool" where
  "pyfloat_nonzero (Finite r) = (r \<noteq> 0)"
| "pyfloat_nonzero PosInf = True"
| "pyfloat_nonzero NegInf = True"
| "pyfloat_nonzero NaN = True"

fun truthy :: "pyval \<Rightarrow> bool" where
  "truthy PNone = False"
| "truthy (PBool b) = b"
| "truthy (PInt n) = (n \<noteq> 0)"
| "truthy (PFloat f) = pyfloat_nonzero f"
| "truthy (PStr s) = (s \<noteq> [])"
| "truthy (PList xs) = (xs \<noteq> [])"
| "truthy (PDict d) = (d \<noteq> [])"

subsection \<open>Strings\<close>

text \<open>
  A string is a list of 8-bit characters. \<open>str.strip\<close>, \<open>str.lower\<close> and \<open>str.upper\<close>
  are modelled on ASCII; characters above 127 are neither whitespace nor cased here.
\<close>

definition is_space :: "char \<Rightarrow> bool" where
  "is_space c = (let n = (of_char c :: nat) in (9 \<le> n \<and> n \<le> 13) \<or> (28 \<le> n \<and> n \<le> 32))"

definition lstrip :: "string \<Rightarrow> string" where
  "lstrip s = dropWhile is_space s"

definition rstrip :: "string \<Rightarrow> string" where
  "rstrip s = rev (dropWhile is_space (rev s))"

definition strip :: "string \<Rightarrow> string" where
  "strip s = rstrip (lstrip s)"

definition lower_char :: "char \<Rightarrow> char" where
  "lower_char c = (let n = (of_char c :: nat) in if 65 \<le> n \<and> n \<le> 90 then char_of (n + 32) else c)"

definition upper_char :: "char \<Rightarrow> char" where
  "upper_char c = (let n = (of_char c :: nat) in if 97 \<le> n \<and> n \<le> 122 then char_of (n - 32) else c)"

definition lower :: "string \<Rightarrow> string" where
  "lower s = map lower_char s"

definition upper :: "string \<Rightarrow> string" where
  "upper s = map upper_char s"

text \<open>\<open>sub in s\<close> on strings is \<^const>\<open>sublist\<close>; \<open>s.startswith(p)\<close> is \<^const>\<open>prefix\<close>.\<close>



section \<open>First-activity timeout configuration\<close>

text \<open>\<open>_OPENROUTER_PROCESSING_TIMEOUT_DEFAULT_SEC = 15.0\<close>\<close>

definition OPENROUTER_PROCESSING_TIMEOUT_DEFAULT_SEC :: pyfloat where
  "OPENROUTER_PROCESSING_TIMEOUT_DEFAULT_SEC = Finite 15"

text \<open>The comparisons \<open>value <= 0\<close> and \<open>value > 0\<close> on floats; both are false on NaN.\<close>

fun pyfloat_le_zero :: "pyfloat \<Rightarrow> bool" where
  "pyfloat_le_zero (Finite r) = (r \<le> 0)"
| "pyfloat_le_zero PosInf = False"
| "pyfloat_le_zero NegInf = True"
| "pyfloat_le_zero NaN = False"

fun pyfloat_positive :: "pyfloat \<Rightarrow> bool" where
  "pyfloat_positive (Finite r) = (0 < r)"
| "pyfloat_positive PosInf = True"
| "pyfloat_positive NegInf = False"
| "pyfloat_positive NaN = False"

text \<open>
  \<open>_get_openrouter_processing_timeout_sec\<close>. The argument \<open>env\<close> is the value of the
  environment variable \<open>OPENROUTER_PROCESSING_TIMEOUT\<close>, \<open>None\<close> when it is unset
  (\<open>get_env(name, "")\<close> then gives the empty string); \<open>float_of_str py\<close> is the builtin
  \<open>float\<close>, \<open>None\<close> when it raises \<open>ValueError\<close>.
\<close>

definition get_openrouter_processing_timeout_sec :: "builtins \<Rightarrow> string option \<Rightarrow> pyfloat" where
  "get_openrouter_processing_timeout_sec py env =
     (let raw = strip (case env of None \<Rightarrow> [] | Some v \<Rightarrow> v) in
      if raw = [] then OPENROUTER_PROCESSING_TIMEOUT_DEFAULT_SEC
      else (case float_of_str py raw of
              None \<Rightarrow> OPENROUTER_PROCESSING_TIMEOUT_DEFAULT_SEC
            | Some v \<Rightarrow>
                if pyfloat_le_zero v then OPENROUTER_PROCESSING_TIMEOUT_DEFAULT_SEC else v))"

section \<open>Usage normalisation\<close>

record usage_dict =
  input_tokens :: int
  output_tokens :: int
  total_tokens :: int

text \<open>\<open>int(x)\<close> of a finite float truncates toward zero.\<close>

definition trunc_rat :: "rat \<Rightarrow> int" where
  "trunc_rat r = (if 0 \<le> r then \<lfloor>r\<rfloor> else \<lceil>r\<rceil>)"

text \<open>
  The local helper \<open>_to_int\<close>: \<open>int(value or 0)\<close> with \<open>TypeError\<close> and \<open>ValueError\<close>
  turned into 0. \<open>int\<close> of an infinite float raises \<open>OverflowError\<close>, which is not caught.
\<close>

fun to_int :: "builtins \<Rightarrow> pyval \<Rightarrow> py_error + int" where
  "to_int py PNone = Inr 0"
| "to_int py (PBool b) = Inr (if b then 1 else 0)"
| "to_int py (PInt n) = Inr n"
| "to_int py (PFloat (Finite r)) = Inr (trunc_rat r)"
| "to_int py (PFloat NaN) = Inr 0"
| "to_int py (PFloat PosInf) = Inl (OverflowError ''cannot convert float infinity to integer'')"
| "to_int py (PFloat NegInf) = Inl (OverflowError ''cannot convert float infinity to integer'')"
| "to_int py (PStr s) =
     (if s = [] then Inr 0 else (case int_of_str py s of Some n \<Rightarrow> Inr n | None \<Rightarrow> Inr 0))"
| "to_int py (PList xs) = Inr 0"
| "to_int py (PDict d) = Inr 0"

text \<open>\<open>_extract_usage_dict\<close>\<close>

definition extract_usage_dict :: "builtins \<Rightarrow> pyval \<Rightarrow> py_error + usage_dict option" where
  "extract_usage_dict py u =
     (case u of
        PDict d \<Rightarrow>
          (let prompt_tokens = dict_get d ''prompt_tokens'';
               completion_tokens = dict_get d ''completion_tokens'';
               total = dict_get d ''total_tokens'';
               responses_style = (prompt_tokens = PNone \<and> completion_tokens = PNone \<and> total = PNone);
               prompt_tokens = (if responses_style then dict_get d ''input_tokens'' else prompt_tokens);
               completion_tokens = (if responses_style then dict_get d ''output_tokens'' else completion_tokens);
               total = (if responses_style then dict_get d ''total_tokens'' else total)
           in case to_int py prompt_tokens of
                Inl e \<Rightarrow> Inl e
              | Inr inp \<Rightarrow>
                  (case to_int py completion_tokens of
                     Inl e \<Rightarrow> Inl e
                   | Inr out \<Rightarrow>
                       (case (if total = PNone then Inr (inp + out) else to_int py total) of
                          Inl e \<Rightarrow> Inl e
                        | Inr tot \<Rightarrow>
                            if inp = 0 \<and> out = 0 \<and> tot = 0 then Inr None
                            else Inr (Some \<lparr>input_tokens = inp, output_tokens = out,
                                              total_tokens = tot\<rparr>))))
      | _ \<Rightarrow> Inr None)"

section \<open>Server-sent-event streaming\<close>

subsection \<open>The HTTP response and its line iterator\<close>


datatype provider_type = GOOGLE | OPENAI | OPENROUTER | CUSTOM

record model_response =
  content :: string
  usage :: "usage_dict option"
  model_name :: string
  friendly_name :: string
  provider :: provider_type
  metadata :: "(string \<times> pyval) list"

subsection \<open>Waiting for the first activity line\<close>

definition timed_out_message :: "builtins \<Rightarrow> rat \<Rightarrow> string" where
  "timed_out_message py timeout_sec =
     ''OpenRouter streaming timed out awaiting first activity after '' @ str_of_float py timeout_sec
     @ ''s (OPENROUTER_PROCESSING_TIMEOUT='' @ str_of_float py timeout_sec @ '').''"

definition ended_message :: "builtins \<Rightarrow> rat \<Rightarrow> string" where
  "ended_message py timeout_sec =
     ''OpenRouter streaming ended before first activity after '' @ str_of_float py timeout_sec
     @ ''s (OPENROUTER_PROCESSING_TIMEOUT='' @ str_of_float py timeout_sec @ '').''"

text \<open>
  The \<open>while True\<close> loop of \<open>_wait_for_openrouter_first_activity_line\<close>. \<open>now\<close> is the clock
  at the head of the iteration. \<open>asyncio.wait_for(..., timeout=remaining)\<close> delivers the next
  line when it becomes available before the deadline and raises \<open>asyncio.TimeoutError\<close>
  otherwise; a line that was available earlier is delivered at once. The result is the
  returned line together with what is left in the iterator.
\<close>

fun first_activity_loop ::
  "builtins \<Rightarrow> rat \<Rightarrow> rat \<Rightarrow> rat \<Rightarrow> (rat \<times> string) list \<Rightarrow> rat
    \<Rightarrow> py_error + (string \<times> (rat \<times> string) list)" where
  "first_activity_loop py timeout_sec deadline now [] eos =
     (if deadline - now \<le> 0 then Inl (TimeoutError (timed_out_message py timeout_sec))
      else if eos < deadline then Inl (TimeoutError (ended_message py timeout_sec))
      else Inl (TimeoutError (timed_out_message py timeout_sec)))"
| "first_activity_loop py timeout_sec deadline now ((t, line) # rest) eos =
     (if deadline - now \<le> 0 then Inl (TimeoutError (timed_out_message py timeout_sec))
      else if \<not> t < deadline then Inl (TimeoutError (timed_out_message py timeout_sec))
      else if line = [] then first_activity_loop py timeout_sec deadline (max now t) rest eos
      else if strip line = [] then first_activity_loop py timeout_sec deadline (max now t) rest eos
      else if prefix ''data:'' (strip line) then Inr (line, rest)
      else if prefix '':'' (strip line) \<and> sublist ''OPENROUTER'' (upper (strip line))
                \<and> sublist ''PROCESSING'' (upper (strip line)) then Inr (line, rest)
      else first_activity_loop py timeout_sec deadline (max now t) rest eos)"

text \<open>\<open>_wait_for_openrouter_first_activity_line\<close>: \<open>now\<close> is the clock at entry.\<close>

definition wait_for_openrouter_first_activity_line ::
  "builtins \<Rightarrow> rat \<Rightarrow> rat \<Rightarrow> (rat \<times> string) list \<Rightarrow> rat
    \<Rightarrow> py_error + (string \<times> (rat \<times> string) list)" where
  "wait_for_openrouter_first_activity_line py timeout_sec now line_iter eos =
     first_activity_loop py timeout_sec (now + timeout_sec) now line_iter eos"


text \<open>How one pass through a loop body ends: with \<open>continue\<close> (or by falling through), or
  with \<open>break\<close>.\<close>

datatype 'a step = Continue 'a | Break 'a

text \<open>\<open>metadata[k] = v\<close>: an existing key keeps its place, a new key goes last.\<close>

definition dict_set :: "string \<Rightarrow> pyval \<Rightarrow> (string \<times> pyval) list \<Rightarrow> (string \<times> pyval) list" where
  "dict_set k v d = AList.update k v d"

subsection \<open>Chat-completions stream\<close>







subsection \<open>Responses stream\<close>




text \<open>The block run when \<open>response_obj\<close> is a dict: metadata and usage.\<close>

definition responses_response_obj ::
  "builtins \<Rightarrow> (string \<times> pyval) list \<Rightarrow> usage_dict option \<Rightarrow> (string \<times> pyval) list
    \<Rightarrow> py_error + (usage_dict option \<times> (string \<times> pyval) list)" where
  "responses_response_obj py response_obj usg meta =
     (let meta1 = (if truthy (dict_get response_obj ''id'')
                   then dict_set ''id'' (dict_get response_obj ''id'') meta else meta);
          meta2 = (if dict_get response_obj ''created_at'' \<noteq> PNone
                   then dict_set ''created'' (dict_get response_obj ''created_at'') meta1 else meta1);
          meta3 = (if truthy (dict_get response_obj ''model'')
                   then dict_set ''model'' (dict_get response_obj ''model'') meta2 else meta2)
      in case extract_usage_dict py (dict_get response_obj ''usage'') of
           Inl e \<Rightarrow> Inl e
         | Inr extracted \<Rightarrow> Inr (case extracted of Some u \<Rightarrow> Some u | None \<Rightarrow> usg, meta3))"

text \<open>
  The loop body for an event that is a dict without a truthy \<open>error\<close> field. The state is
  \<open>(completed_response, output_parts, usage, metadata)\<close>. The membership test
  \<open>event_type in {...}\<close> hashes \<open>event_type\<close> and raises \<open>TypeError\<close> on a list or a dict.
\<close>

definition responses_event ::
  "builtins \<Rightarrow> (string \<times> pyval) list
    \<Rightarrow> (string \<times> pyval) list option \<times> string list \<times> usage_dict option \<times> (string \<times> pyval) list
    \<Rightarrow> py_error + ((string \<times> pyval) list option \<times> string list \<times> usage_dict option
                      \<times> (string \<times> pyval) list) step" where
  "responses_event py event st =
     (case st of (completed, parts, usg, meta) \<Rightarrow>
        (let event_type = dict_get event ''type'';
             meta1 = (case event_type of
                        PStr s \<Rightarrow> dict_set ''last_event_type'' event_type meta
                      | _ \<Rightarrow> meta);
             response_obj = dict_get event ''response''
         in case (case response_obj of
                    PDict ro \<Rightarrow> responses_response_obj py ro usg meta1
                  | _ \<Rightarrow> Inr (usg, meta1)) of
              Inl e \<Rightarrow> Inl e
            | Inr (usg', meta2) \<Rightarrow>
                (let parts' =
                       (if event_type = PStr ''response.output_text.delta''
                        then (case dict_get event ''delta'' of
                                PStr delta \<Rightarrow> if delta \<noteq> [] then parts @ [delta] else parts
                              | _ \<Rightarrow> parts)
                        else parts)
                 in case (if event_type = PStr ''response.completed''
                          then (case response_obj of PDict ro \<Rightarrow> Some ro | _ \<Rightarrow> None)
                          else None) of
                      Some ro \<Rightarrow> Inr (Break (Some ro, parts', usg', meta2))
                    | None \<Rightarrow>
                        (case event_type of
                           PList xs \<Rightarrow> Inl (TypeError ''unhashable type: 'list' '')
                         | PDict d \<Rightarrow> Inl (TypeError ''unhashable type: 'dict' '')
                         | PStr s \<Rightarrow>
                             if s = ''response.failed'' \<or> s = ''response.error''
                             then Inl (RuntimeError (''OpenRouter responses stream failed ('' @ s
                                          @ ''): '' @ str_of_val py (PDict event)))
                             else Inr (Continue (completed, parts', usg', meta2))
                         | _ \<Rightarrow> Inr (Continue (completed, parts', usg', meta2))))))"

definition responses_line ::
  "builtins \<Rightarrow> string
    \<Rightarrow> (string \<times> pyval) list option \<times> string list \<times> usage_dict option \<times> (string \<times> pyval) list
    \<Rightarrow> py_error + ((string \<times> pyval) list option \<times> string list \<times> usage_dict option
                      \<times> (string \<times> pyval) list) step" where
  "responses_line py line st =
     (if line = [] then Inr (Continue st)
      else if strip line = [] then Inr (Continue st)
      else if prefix '':'' (strip line) then Inr (Continue st)
      else if \<not> prefix ''data:'' (strip line) then Inr (Continue st)
      else (let data = lstrip (drop 5 (strip line)) in
            if data = ''[DONE]'' then Inr (Break st)
            else (case json_loads py data of
                    Malformed \<Rightarrow>
                      Inl (RuntimeError (''OpenRouter responses stream sent invalid JSON event: ''
                             @ take 2000 data))
                  | Crashed m \<Rightarrow> Inl (OtherError m)
                  | Parsed (PDict event) \<Rightarrow>
                      if truthy (dict_get event ''error'')
                      then Inl (RuntimeError (''OpenRouter responses stream error: ''
                                   @ str_of_val py (dict_get event ''error'')))
                      else responses_event py event st
                  | Parsed _ \<Rightarrow> Inr (Continue st))))"



section \<open>OpenRouter model catalogue\<close>

text \<open>
  The cache attributes of \<open>OpenRouterProvider\<close>, as one provider instance sees them. The
  index maps a model id or canonical slug to the model's record. \<open>network_fetches\<close> is
  not an attribute of the class: it counts the calls of \<open>_fetch_models_api\<close>, so that a
  statement can say that no request was made. The clock is a rational number of seconds.
\<close>

record provider_state =
  models_api_cache :: "(string \<times> (string \<times> pyval) list) list option"
  models_api_last_fetch :: "rat option"
  models_api_last_failure :: "rat option"
  network_fetches :: nat

definition MODELS_API_TTL_SEC :: rat where
  "MODELS_API_TTL_SEC = 60 * 60 * 24"

definition MODELS_API_FAILURE_COOLDOWN_SEC :: rat where
  "MODELS_API_FAILURE_COOLDOWN_SEC = 60"

text \<open>A name between single quotes, as error messages show it.\<close>

definition quoted :: "string \<Rightarrow> string" where
  "quoted s = [CHR 0x27] @ s @ [CHR 0x27]"

text \<open>\<open>type(v).__name__\<close>\<close>

fun type_name :: "pyval \<Rightarrow> string" where
  "type_name PNone = ''NoneType''"
| "type_name (PBool b) = ''bool''"
| "type_name (PInt n) = ''int''"
| "type_name (PFloat f) = ''float''"
| "type_name (PStr s) = ''str''"
| "type_name (PList xs) = ''list''"
| "type_name (PDict d) = ''dict''"

text \<open>
  \<open>_fetch_models_api\<close>. The request, \<open>raise_for_status\<close> and \<open>response.json()\<close> are the
  parameter \<open>net\<close>: the exception one of them raises, or the decoded payload.
  \<open>payload.get\<close> raises \<open>AttributeError\<close> unless the payload is a dict.
\<close>

definition fetch_models_api :: "py_error + pyval \<Rightarrow> py_error + pyval list" where
  "fetch_models_api net =
     (case net of
        Inl e \<Rightarrow> Inl e
      | Inr payload \<Rightarrow>
          (case payload of
             PDict p \<Rightarrow> (case map_of p ''data'' of Some (PList data) \<Rightarrow> Inr data | _ \<Rightarrow> Inr [])
           | _ \<Rightarrow> Inl (OtherError (quoted (type_name payload)
                        @ '' object has no attribute '' @ quoted ''get''))))"

text \<open>The loop that builds the index in \<open>_get_models_api_cache\<close>.\<close>

fun index_loop ::
  "pyval list \<Rightarrow> (string \<times> (string \<times> pyval) list) list \<Rightarrow> (string \<times> (string \<times> pyval) list) list" where
  "index_loop [] index = index"
| "index_loop (model # models) index =
     (case model of
        PDict m \<Rightarrow>
          (let index1 = (case dict_get m ''id'' of
                           PStr model_id \<Rightarrow> if model_id \<noteq> [] then AList.update model_id m index
                                            else index
                         | _ \<Rightarrow> index);
               index2 = (case dict_get m ''canonical_slug'' of
                           PStr canonical_slug \<Rightarrow>
                             if canonical_slug \<noteq> [] \<and> map_of index1 canonical_slug = None
                             then AList.update canonical_slug m index1 else index1
                         | _ \<Rightarrow> index1)
           in index_loop models index2)
      | _ \<Rightarrow> index_loop models index)"

text \<open>
  \<open>_get_models_api_cache\<close> at clock \<open>now\<close>. The lock is held for the whole body, so the
  body runs as one step. Every exception of the \<open>try\<close> block is caught by
  \<open>except Exception\<close>.
\<close>

definition get_models_api_cache ::
  "rat \<Rightarrow> py_error + pyval \<Rightarrow> provider_state
    \<Rightarrow> (py_error + (string \<times> (string \<times> pyval) list) list) \<times> provider_state" where
  "get_models_api_cache now net st =
     (if models_api_cache st \<noteq> None \<and> models_api_last_fetch st \<noteq> None
         \<and> now - the (models_api_last_fetch st) < MODELS_API_TTL_SEC
      then (Inr (the (models_api_cache st)), st)
      else if models_api_last_failure st \<noteq> None
         \<and> now - the (models_api_last_failure st) < MODELS_API_FAILURE_COOLDOWN_SEC
      then (Inl (RuntimeError ''OpenRouter models API recently failed; cooldown active''), st)
      else (case fetch_models_api net of
              Inr models \<Rightarrow>
                (Inr (index_loop models []),
                 st\<lparr>models_api_cache := Some (index_loop models []),
                    models_api_last_fetch := Some now,
                    models_api_last_failure := None,
                    network_fetches := network_fetches st + 1\<rparr>)
            | Inl exc \<Rightarrow>
                (Inl (RuntimeError (''Failed to fetch OpenRouter models API: '' @ error_text exc)),
                 st\<lparr>models_api_last_failure := Some now,
                    network_fetches := network_fetches st + 1\<rparr>)))"

text \<open>\<open>s.rsplit(":", 1)[0]\<close>: the part before the last colon, or all of \<open>s\<close> without one.\<close>

definition before_last_colon :: "string \<Rightarrow> string" where
  "before_last_colon s =
     (if CHR '':'' \<in> set s then rev (tl (dropWhile (\<lambda>c. c \<noteq> CHR '':'') (rev s))) else s)"

text \<open>\<open>_lookup_dynamic_model_info\<close>\<close>

definition lookup_dynamic_model_info ::
  "rat \<Rightarrow> py_error + pyval \<Rightarrow> provider_state \<Rightarrow> string
    \<Rightarrow> (string \<times> pyval) list option \<times> provider_state" where
  "lookup_dynamic_model_info now net st name =
     (case get_models_api_cache now net st of
        (Inl exc, st') \<Rightarrow> (None, st')
      | (Inr index, st') \<Rightarrow>
          (case map_of index name of
             Some hit \<Rightarrow> (Some hit, st')
           | None \<Rightarrow>
               if CHR '':'' \<in> set name
               then (map_of index (before_last_colon name), st')
               else (None, st')))"

subsection \<open>Capabilities\<close>

text \<open>
  \<open>ModelCapabilities\<close> with the fields the provider sets. \<open>is_generic\<close> stands for the
  attribute \<open>_is_generic\<close>, which only the generic fallback carries. The temperature
  constraint is the triple handed to \<open>RangeTemperatureConstraint\<close>.
\<close>

record capabilities =
  cap_provider :: provider_type
  cap_model_name :: string
  cap_friendly_name :: string
  intelligence_score :: int
  description :: string
  aliases :: "string list"
  context_window :: int
  max_output_tokens :: int
  supports_extended_thinking :: bool
  supports_system_prompts :: bool
  supports_streaming :: bool
  supports_function_calling :: bool
  supports_images :: bool
  supports_json_mode :: bool
  supports_temperature :: bool
  max_image_size_mb :: rat
  temperature_constraint :: "rat \<times> rat \<times> rat"
  allow_code_generation :: bool
  is_generic :: bool

text \<open>\<open>int(v)\<close> for a value \<open>v\<close> that is not \<open>None\<close>.\<close>

definition int_argument_message :: "pyval \<Rightarrow> string" where
  "int_argument_message v =
     ''int() argument must be a string, a bytes-like object or a real number, not ''
     @ quoted (type_name v)"

fun py_int :: "builtins \<Rightarrow> pyval \<Rightarrow> py_error + int" where
  "py_int py PNone = Inl (TypeError (int_argument_message PNone))"
| "py_int py (PBool b) = Inr (if b then 1 else 0)"
| "py_int py (PInt n) = Inr n"
| "py_int py (PFloat (Finite r)) = Inr (trunc_rat r)"
| "py_int py (PFloat NaN) = Inl (ValueError ''cannot convert float NaN to integer'')"
| "py_int py (PFloat PosInf) = Inl (OverflowError ''cannot convert float infinity to integer'')"
| "py_int py (PFloat NegInf) = Inl (OverflowError ''cannot convert float infinity to integer'')"
| "py_int py (PStr s) =
     (case int_of_str py s of
        Some n \<Rightarrow> Inr n
      | None \<Rightarrow> Inl (ValueError (''invalid literal for int() with base 10: '' @ quoted s)))"
| "py_int py (PList xs) = Inl (TypeError (int_argument_message (PList xs)))"
| "py_int py (PDict d) = Inl (TypeError (int_argument_message (PDict d)))"

text \<open>\<open>[x for x in v if isinstance(x, str)]\<close> for a list \<open>v\<close>, the empty list otherwise.\<close>

definition str_items :: "pyval \<Rightarrow> string list" where
  "str_items v =
     (case v of
        PList xs \<Rightarrow> concat (map (\<lambda>x. case x of PStr s \<Rightarrow> [s] | _ \<Rightarrow> []) xs)
      | _ \<Rightarrow> [])"

text \<open>\<open>a or b\<close>\<close>

definition py_or :: "pyval \<Rightarrow> pyval \<Rightarrow> pyval" where
  "py_or a b = (if truthy a then a else b)"

text \<open>
  \<open>_build_capabilities_from_models_api\<close>. \<open>fname\<close> is \<open>FRIENDLY_NAME\<close>. A bool counts
  as an \<open>int\<close> for \<open>isinstance\<close>.
\<close>

definition build_capabilities_from_models_api ::
  "builtins \<Rightarrow> string \<Rightarrow> string \<Rightarrow> (string \<times> pyval) list \<Rightarrow> py_error + capabilities" where
  "build_capabilities_from_models_api py fname name model_info =
     (case py_int py (py_or (dict_get model_info ''context_length'') (PInt 0)) of
        Inl e \<Rightarrow> Inl e
      | Inr n \<Rightarrow>
          (let context_window = (if n \<noteq> 0 then n else 32768);
               top_provider = py_or (dict_get model_info ''top_provider'') (PDict []);
               max_completion_tokens =
                 (case top_provider of PDict tp \<Rightarrow> dict_get tp ''max_completion_tokens'' | _ \<Rightarrow> PNone);
               max_output_tokens =
                 (case max_completion_tokens of
                    PInt k \<Rightarrow> k
                  | PBool b \<Rightarrow> (if b then 1 else 0)
                  | _ \<Rightarrow> min context_window 32768);
               architecture = py_or (dict_get model_info ''architecture'') (PDict []);
               input_modalities =
                 (case architecture of
                    PDict a \<Rightarrow> str_items (py_or (dict_get a ''input_modalities'') (PList []))
                  | _ \<Rightarrow> []);
               supported_parameters =
                 str_items (py_or (dict_get model_info ''supported_parameters'') (PList []));
               description =
                 (case py_or (py_or (dict_get model_info ''description'') (dict_get model_info ''name''))
                         (PStr []) of
                    PStr d \<Rightarrow> d
                  | _ \<Rightarrow> [])
           in Inr \<lparr>cap_provider = OPENROUTER,
                   cap_model_name = name,
                   cap_friendly_name = fname @ '' ('' @ name @ '')'',
                   intelligence_score = 9,
                   description = description,
                   aliases = [],
                   context_window = context_window,
                   max_output_tokens = max_output_tokens,
                   supports_extended_thinking = False,
                   supports_system_prompts = True,
                   supports_streaming = True,
                   supports_function_calling = (''tools'' \<in> set supported_parameters),
                   supports_images = (''image'' \<in> set input_modalities),
                   supports_json_mode = (''response_format'' \<in> set supported_parameters
                                          \<or> ''structured_outputs'' \<in> set supported_parameters),
                   supports_temperature = (''temperature'' \<in> set supported_parameters),
                   max_image_size_mb = 0,
                   temperature_constraint = (0, 2, 3 / 10),
                   allow_code_generation = True,
                   is_generic = False\<rparr>))"

text \<open>
  The generic record of \<open>_lookup_capabilities\<close>. The constructor call names twelve fields;
  the others keep the defaults of \<open>ModelCapabilities\<close>, a class that is not among the
  sources, so they are taken from the parameter \<open>defaults\<close>.
\<close>

definition generic_capabilities :: "capabilities \<Rightarrow> string \<Rightarrow> string \<Rightarrow> capabilities" where
  "generic_capabilities defaults fname canonical_name =
     defaults\<lparr>cap_provider := OPENROUTER,
              cap_model_name := canonical_name,
              cap_friendly_name := fname,
              intelligence_score := 9,
              context_window := 32768,
              max_output_tokens := 32768,
              supports_extended_thinking := False,
              supports_system_prompts := True,
              supports_streaming := True,
              supports_function_calling := False,
              allow_code_generation := True,
              temperature_constraint := (0, 2, 1),
              is_generic := True\<rparr>"

text \<open>
  \<open>_lookup_capabilities\<close>. \<open>registry\<close> is \<open>self._registry.get_capabilities\<close>, whose class is
  not among the sources; a capabilities object is truthy.
\<close>

definition lookup_capabilities ::
  "builtins \<Rightarrow> (string \<Rightarrow> capabilities option) \<Rightarrow> capabilities \<Rightarrow> string \<Rightarrow> rat
    \<Rightarrow> py_error + pyval \<Rightarrow> provider_state \<Rightarrow> string
    \<Rightarrow> (py_error + capabilities option) \<times> provider_state" where
  "lookup_capabilities py registry defaults fname now net st canonical_name =
     (case registry canonical_name of
        Some caps \<Rightarrow> (Inr (Some caps), st)
      | None \<Rightarrow>
          if CHR ''/'' \<in> set (before_last_colon canonical_name)
          then (case lookup_dynamic_model_info now net st canonical_name of
                  (Some model_info, st') \<Rightarrow>
                    (case build_capabilities_from_models_api py fname canonical_name model_info of
                       Inl e \<Rightarrow> (Inl e, st')
                     | Inr caps \<Rightarrow> (Inr (Some caps), st'))
                | (None, st') \<Rightarrow> (Inr (Some (generic_capabilities defaults fname canonical_name)), st'))
          else (Inr None, st))"

section \<open>Vocabulary of the statements\<close>

text \<open>A count as a usage block supplies it: absent, or a non-negative integer.\<close>

definition is_count :: "pyval \<Rightarrow> bool" where
  "is_count v = (case v of PNone \<Rightarrow> True | PInt n \<Rightarrow> 0 \<le> n | _ \<Rightarrow> False)"

text \<open>
  A line counts as first activity when, with surrounding whitespace removed, it starts with
  \<open>data:\<close> or is a comment whose upper-cased text has both keep-alive words.
\<close>

definition first_activity :: "string \<Rightarrow> bool" where
  "first_activity line =
     (prefix ''data:'' (strip line)
      \<or> (prefix '':'' (strip line) \<and> sublist ''OPENROUTER'' (upper (strip line))
           \<and> sublist ''PROCESSING'' (upper (strip line))))"

text \<open>The same test on the line as it stands, as the specification words it.\<close>

definition first_activity_literal :: "string \<Rightarrow> bool" where
  "first_activity_literal line =
     (prefix ''data:'' line
      \<or> (prefix '':'' line \<and> sublist ''OPENROUTER'' (upper line) \<and> sublist ''PROCESSING'' (upper line)))"



definition sse_data :: "string \<Rightarrow> string option" where
  "sse_data line = (if prefix ''data:'' (strip line) then Some (lstrip (drop 5 (strip line))) else None)"

definition sse_done :: "string \<Rightarrow> bool" where
  "sse_done line = (sse_data line = Some ''[DONE]'')"











text \<open>The event a data line carries: its parsed object, when the line is a data line other
  than \<open>[DONE]\<close> whose payload parses to an object with no truthy \<open>error\<close> field.\<close>

definition sse_event :: "builtins \<Rightarrow> string \<Rightarrow> (string \<times> pyval) list option" where
  "sse_event py line =
     (case sse_data line of
        None \<Rightarrow> None
      | Some data \<Rightarrow>
          if data = ''[DONE]'' then None
          else (case json_loads py data of
                  Parsed (PDict event) \<Rightarrow> if truthy (dict_get event ''error'') then None else Some event
                | _ \<Rightarrow> None))"








section \<open>Stand-ins for the builtins on sample inputs\<close>

text \<open>
  The library functions on the literals the examples use, so that the model can be
  evaluated there: \<open>float("nan")\<close> is NaN, \<open>float("0.2")\<close> is 0.2, and so on. On any other
  argument a stand-in answers as the library does on malformed input.
\<close>

definition sample_float :: "string \<Rightarrow> pyfloat option" where
  "sample_float s =
     (if s = ''nan'' then Some NaN
      else if s = ''0.2'' then Some (Finite (1 / 5))
      else if s = ''0.05'' then Some (Finite (1 / 20))
      else None)"

definition sample_str_of_float :: "rat \<Rightarrow> string" where
  "sample_str_of_float r =
     (if r = 1 / 5 then ''0.2'' else if r = 1 / 20 then ''0.05'' else if r = 15 then ''15.0''
      else ''1.0'')"

definition sample_json_table :: "(string \<times> pyval) list" where
  \<open>sample_json_table =
     [(''{"id":"gen-1","created":1,"model":"z-ai/glm-4.7","choices":[{"index":0,"delta":{"content":"hi"}}]}'',
       PDict [(''id'', PStr ''gen-1''), (''created'', PInt 1), (''model'', PStr ''z-ai/glm-4.7''),
              (''choices'', PList [PDict [(''index'', PInt 0),
                                          (''delta'', PDict [(''content'', PStr ''hi'')])]])]),
      (''{"id":"gen-1","created":1,"model":"z-ai/glm-4.7","choices":[{"index":0,"delta":{"content":" there"}}]}'',
       PDict [(''id'', PStr ''gen-1''), (''created'', PInt 1), (''model'', PStr ''z-ai/glm-4.7''),
              (''choices'', PList [PDict [(''index'', PInt 0),
                                          (''delta'', PDict [(''content'', PStr '' there'')])]])]),
      (''{"type":"response.completed","response":{"id":"resp_1","created_at":123,"model":"o3-pro","output":[{"type":"message","role":"assistant","content":[{"type":"output_text","text":"hello"}]}]}}'',
       PDict [(''type'', PStr ''response.completed''),
              (''response'',
               PDict [(''id'', PStr ''resp_1''), (''created_at'', PInt 123), (''model'', PStr ''o3-pro''),
                      (''output'',
                       PList [PDict [(''type'', PStr ''message''), (''role'', PStr ''assistant''),
                                     (''content'',
                                      PList [PDict [(''type'', PStr ''output_text''),
                                                    (''text'', PStr ''hello'')]])]])])]),
      (''{"type":"response.output_text.delta","delta":"hi"}'',
       PDict [(''type'', PStr ''response.output_text.delta''), (''delta'', PStr ''hi'')]),
      (''{"type":"response.completed","response":{"output":[]}}'',
       PDict [(''type'', PStr ''response.completed''), (''response'', PDict [(''output'', PList [])])])]\<close>

definition sample_json_loads :: "string \<Rightarrow> pyval parse" where
  "sample_json_loads s = (case map_of sample_json_table s of Some v \<Rightarrow> Parsed v | None \<Rightarrow> Malformed)"

definition sample_py :: builtins where
  "sample_py =
     \<lparr>json_loads = sample_json_loads, literal_eval = (\<lambda>s. Malformed),
      float_of_str = sample_float, int_of_str = (\<lambda>s. None),
      str_of_float = sample_str_of_float, str_of_val = (\<lambda>v. ''?'')\<rparr>"




section \<open>Properties of the usage normalisation\<close>

lemma to_int_count: "is_count v \<Longrightarrow> \<exists>n. to_int py v = Inr n \<and> 0 \<le> n"
  by (cases v) (auto simp: is_count_def)

text \<open>
  C9, as the claim states it, fails: the counts are whatever integers the block holds, and
  nothing clamps them. A block with a negative prompt count gives a negative input count.
\<close>

theorem extract_usage_dict_negative_count:
  "extract_usage_dict sample_py (PDict [(''prompt_tokens'', PInt (- 3)), (''completion_tokens'', PInt 5)])
     = Inr (Some \<lparr>input_tokens = - 3, output_tokens = 5, total_tokens = 2\<rparr>)
   \<and> \<not> (0 \<le> input_tokens \<lparr>input_tokens = - 3, output_tokens = 5, total_tokens = 2\<rparr>)"
  by (simp add: extract_usage_dict_def dict_get_def)

text \<open>
  A responses-style block that reports its total is outside the amended claim: the switch
  to \<open>input_tokens\<close>/\<open>output_tokens\<close> is taken only when \<open>total_tokens\<close> is absent too, so
  the two counts are read as zero.
\<close>

lemma extract_usage_dict_responses_with_total:
  "extract_usage_dict sample_py
     (PDict [(''input_tokens'', PInt 3), (''output_tokens'', PInt 5), (''total_tokens'', PInt 8)])
     = Inr (Some \<lparr>input_tokens = 0, output_tokens = 0, total_tokens = 8\<rparr>)"
  by (simp add: extract_usage_dict_def dict_get_def)

text \<open>
  C9 (amended). Usage normalisation accepts a block with \<open>prompt_tokens\<close> and
  \<open>completion_tokens\<close> (with or without \<open>total_tokens\<close>), or a block with \<open>input_tokens\<close> and
  \<open>output_tokens\<close> and none of the other three keys, and returns
  \<open>{input_tokens, output_tokens, total_tokens}\<close>; a missing total is the sum of input and
  output; a result of all zeros is \<open>None\<close>; and the returned counts are non-negative
  whenever every count the block supplies is absent or a non-negative integer.
\<close>

theorem extract_usage_dict_normalises:
  "(map_of d ''prompt_tokens'' = Some (PInt a) \<and> map_of d ''completion_tokens'' = Some (PInt b)
      \<and> dict_get d ''total_tokens'' = PNone \<longrightarrow>
      extract_usage_dict py (PDict d) =
        Inr (if a = 0 \<and> b = 0 then None
             else Some \<lparr>input_tokens = a, output_tokens = b, total_tokens = a + b\<rparr>))
   \<and> (map_of d ''prompt_tokens'' = Some (PInt a) \<and> map_of d ''completion_tokens'' = Some (PInt b)
      \<and> map_of d ''total_tokens'' = Some (PInt t) \<longrightarrow>
      extract_usage_dict py (PDict d) =
        Inr (if a = 0 \<and> b = 0 \<and> t = 0 then None
             else Some \<lparr>input_tokens = a, output_tokens = b, total_tokens = t\<rparr>))
   \<and> (dict_get d ''prompt_tokens'' = PNone \<and> dict_get d ''completion_tokens'' = PNone
      \<and> dict_get d ''total_tokens'' = PNone
      \<and> map_of d ''input_tokens'' = Some (PInt a) \<and> map_of d ''output_tokens'' = Some (PInt b) \<longrightarrow>
      extract_usage_dict py (PDict d) =
        Inr (if a = 0 \<and> b = 0 then None
             else Some \<lparr>input_tokens = a, output_tokens = b, total_tokens = a + b\<rparr>))
   \<and> ((\<forall>k \<in> {''prompt_tokens'', ''completion_tokens'', ''total_tokens'', ''input_tokens'',
                ''output_tokens''}. is_count (dict_get d k))
      \<and> extract_usage_dict py (PDict d) = Inr (Some r) \<longrightarrow>
      0 \<le> input_tokens r \<and> 0 \<le> output_tokens r \<and> 0 \<le> total_tokens r
      \<and> (dict_get d ''total_tokens'' = PNone \<longrightarrow> total_tokens r = input_tokens r + output_tokens r)
      \<and> \<not> (input_tokens r = 0 \<and> output_tokens r = 0 \<and> total_tokens r = 0))"
proof (intro conjI)
  show "map_of d ''prompt_tokens'' = Some (PInt a) \<and> map_of d ''completion_tokens'' = Some (PInt b)
      \<and> dict_get d ''total_tokens'' = PNone \<longrightarrow>
      extract_usage_dict py (PDict d) =
        Inr (if a = 0 \<and> b = 0 then None
             else Some \<lparr>input_tokens = a, output_tokens = b, total_tokens = a + b\<rparr>)"
    by (auto simp: extract_usage_dict_def dict_get_def Let_def)
  show "map_of d ''prompt_tokens'' = Some (PInt a) \<and> map_of d ''completion_tokens'' = Some (PInt b)
      \<and> map_of d ''total_tokens'' = Some (PInt t) \<longrightarrow>
      extract_usage_dict py (PDict d) =
        Inr (if a = 0 \<and> b = 0 \<and> t = 0 then None
             else Some \<lparr>input_tokens = a, output_tokens = b, total_tokens = t\<rparr>)"
    by (auto simp: extract_usage_dict_def dict_get_def Let_def)
  show "dict_get d ''prompt_tokens'' = PNone \<and> dict_get d ''completion_tokens'' = PNone
      \<and> dict_get d ''total_tokens'' = PNone
      \<and> map_of d ''input_tokens'' = Some (PInt a) \<and> map_of d ''output_tokens'' = Some (PInt b) \<longrightarrow>
      extract_usage_dict py (PDict d) =
        Inr (if a = 0 \<and> b = 0 then None
             else Some \<lparr>input_tokens = a, output_tokens = b, total_tokens = a + b\<rparr>)"
    by (auto simp: extract_usage_dict_def dict_get_def Let_def)
  show "(\<forall>k \<in> {''prompt_tokens'', ''completion_tokens'', ''total_tokens'', ''input_tokens'',
                ''output_tokens''}. is_count (dict_get d k))
      \<and> extract_usage_dict py (PDict d) = Inr (Some r) \<longrightarrow>
      0 \<le> input_tokens r \<and> 0 \<le> output_tokens r \<and> 0 \<le> total_tokens r
      \<and> (dict_get d ''total_tokens'' = PNone \<longrightarrow> total_tokens r = input_tokens r + output_tokens r)
      \<and> \<not> (input_tokens r = 0 \<and> output_tokens r = 0 \<and> total_tokens r = 0)"
  proof (intro impI, elim conjE)
    assume c: "\<forall>k \<in> {''prompt_tokens'', ''completion_tokens'', ''total_tokens'', ''input_tokens'',
                ''output_tokens''}. is_count (dict_get d k)"
      and e: "extract_usage_dict py (PDict d) = Inr (Some r)"
    from c have c1: "is_count (dict_get d ''prompt_tokens'')"
      and c2: "is_count (dict_get d ''completion_tokens'')"
      and c3: "is_count (dict_get d ''total_tokens'')"
      and c4: "is_count (dict_get d ''input_tokens'')"
      and c5: "is_count (dict_get d ''output_tokens'')" by simp_all
    obtain n1 n2 n3 n4 n5 where
      "to_int py (dict_get d ''prompt_tokens'') = Inr n1" "0 \<le> n1"
      "to_int py (dict_get d ''completion_tokens'') = Inr n2" "0 \<le> n2"
      "to_int py (dict_get d ''total_tokens'') = Inr n3" "0 \<le> n3"
      "to_int py (dict_get d ''input_tokens'') = Inr n4" "0 \<le> n4"
      "to_int py (dict_get d ''output_tokens'') = Inr n5" "0 \<le> n5"
      using to_int_count[OF c1, of py] to_int_count[OF c2, of py] to_int_count[OF c3, of py]
        to_int_count[OF c4, of py] to_int_count[OF c5, of py] by blast
    with e show "0 \<le> input_tokens r \<and> 0 \<le> output_tokens r \<and> 0 \<le> total_tokens r
      \<and> (dict_get d ''total_tokens'' = PNone \<longrightarrow> total_tokens r = input_tokens r + output_tokens r)
      \<and> \<not> (input_tokens r = 0 \<and> output_tokens r = 0 \<and> total_tokens r = 0)"
      by (auto simp: extract_usage_dict_def Let_def split: if_splits)
  qed
qed

theorem extract_usage_dict_normalises_witness:
  "extract_usage_dict sample_py (PDict [(''prompt_tokens'', PInt 3), (''completion_tokens'', PInt 5)])
     = Inr (Some \<lparr>input_tokens = 3, output_tokens = 5, total_tokens = 8\<rparr>)
   \<and> extract_usage_dict sample_py
       (PDict [(''prompt_tokens'', PInt 3), (''completion_tokens'', PInt 5), (''total_tokens'', PInt 9)])
     = Inr (Some \<lparr>input_tokens = 3, output_tokens = 5, total_tokens = 9\<rparr>)
   \<and> extract_usage_dict sample_py (PDict [(''input_tokens'', PInt 3), (''output_tokens'', PInt 5)])
     = Inr (Some \<lparr>input_tokens = 3, output_tokens = 5, total_tokens = 8\<rparr>)
   \<and> extract_usage_dict sample_py (PDict [(''prompt_tokens'', PInt 0), (''completion_tokens'', PInt 0)])
     = Inr None
   \<and> (0::int) \<le> 3 \<and> (0::int) \<le> 5 \<and> (0::int) \<le> 8"
  using
    extract_usage_dict_normalises[of "[(''prompt_tokens'', PInt 3), (''completion_tokens'', PInt 5)]"
      3 5 sample_py 0 "\<lparr>input_tokens = 3, output_tokens = 5, total_tokens = 8\<rparr>"]
    extract_usage_dict_normalises[of
      "[(''prompt_tokens'', PInt 3), (''completion_tokens'', PInt 5), (''total_tokens'', PInt 9)]"
      3 5 sample_py 9 "\<lparr>input_tokens = 3, output_tokens = 5, total_tokens = 9\<rparr>"]
    extract_usage_dict_normalises[of "[(''input_tokens'', PInt 3), (''output_tokens'', PInt 5)]"
      3 5 sample_py 0 "\<lparr>input_tokens = 3, output_tokens = 5, total_tokens = 8\<rparr>"]
    extract_usage_dict_normalises[of "[(''prompt_tokens'', PInt 0), (''completion_tokens'', PInt 0)]"
      0 0 sample_py 0 "\<lparr>input_tokens = 0, output_tokens = 0, total_tokens = 0\<rparr>"]
  by (simp add: dict_get_def is_count_def)

section \<open>Properties of the first-activity timeout configuration\<close>

lemma processing_timeout_cases:
  "get_openrouter_processing_timeout_sec py env = OPENROUTER_PROCESSING_TIMEOUT_DEFAULT_SEC
   \<or> (\<exists>v. float_of_str py (strip (case env of None \<Rightarrow> [] | Some s \<Rightarrow> s)) = Some v
          \<and> get_openrouter_processing_timeout_sec py env = v \<and> \<not> pyfloat_le_zero v)"
  by (auto simp: get_openrouter_processing_timeout_sec_def Let_def split: option.splits)

text \<open>
  C10. With the variable set to \<open>nan\<close> the builtin \<open>float\<close> succeeds, the test
  \<open>value <= 0\<close> is false on NaN, and the timeout returned is NaN: neither the default
  nor a strictly positive number.
\<close>

theorem processing_timeout_nan:
  "get_openrouter_processing_timeout_sec sample_py (Some ''nan'') = NaN
   \<and> \<not> pyfloat_positive (get_openrouter_processing_timeout_sec sample_py (Some ''nan''))
   \<and> get_openrouter_processing_timeout_sec sample_py (Some ''nan'')
       \<noteq> OPENROUTER_PROCESSING_TIMEOUT_DEFAULT_SEC"
  by (simp add: get_openrouter_processing_timeout_sec_def sample_py_def sample_float_def
      strip_def lstrip_def rstrip_def is_space_def OPENROUTER_PROCESSING_TIMEOUT_DEFAULT_SEC_def)

section \<open>Properties of the first-activity wait\<close>

lemma strip_Nil [simp]: "strip [] = []" by (simp add: strip_def lstrip_def rstrip_def)

lemma not_first_activity_Nil: "\<not> first_activity line" if "strip line = []"
  using that by (simp add: first_activity_def)

lemma first_activity_loop_Cons:
  "now < D \<Longrightarrow> t < D \<Longrightarrow>
   first_activity_loop py T D now ((t, l) # rest) eos =
     (if first_activity l then Inr (l, rest) else first_activity_loop py T D (max now t) rest eos)"
  by (auto simp: first_activity_def)

declare first_activity_loop.simps(2) [simp del]

lemma first_activity_loop_Inl:
  "first_activity_loop py T D now ls eos = Inl e \<Longrightarrow>
   e = TimeoutError (timed_out_message py T) \<or> e = TimeoutError (ended_message py T)"
  by (induction py T D now ls eos rule: first_activity_loop.induct)
    (auto simp: first_activity_loop.simps(2) split: if_splits)

lemma first_activity_loop_Inr:
  "first_activity_loop py T D now ls eos = Inr (l, rest) \<Longrightarrow>
   \<exists>pre t. ls = pre @ (t, l) # rest \<and> first_activity l \<and> (\<forall>x\<in>set pre. \<not> first_activity (snd x))
      \<and> (\<forall>x\<in>set pre. fst x < D) \<and> t < D \<and> now < D"
proof (induction py T D now ls eos rule: first_activity_loop.induct)
  case (1 py timeout_sec deadline now eos)
  then show ?case by (simp split: if_splits)
next
  case (2 py T D now t line rest' eos)
  from "2.prems" have nd: "now < D" and td: "t < D"
    by (auto simp: first_activity_loop.simps(2) split: if_splits)
  show ?case
  proof (cases "first_activity line")
    case True
    with "2.prems" nd td have "l = line" "rest = rest'" by (simp_all add: first_activity_loop_Cons)
    with True nd td show ?thesis by (intro exI[of _ "[]"] exI[of _ t]) simp
  next
    case False
    with "2.prems" nd td have rec: "first_activity_loop py T D (max now t) rest' eos = Inr (l, rest)"
      by (simp add: first_activity_loop_Cons)
    have "\<exists>pre t. rest' = pre @ (t, l) # rest \<and> first_activity l \<and> (\<forall>x\<in>set pre. \<not> first_activity (snd x))
      \<and> (\<forall>x\<in>set pre. fst x < D) \<and> t < D \<and> max now t < D"
    proof (cases "line = []")
      case True
      with "2.IH"(1) rec nd td show ?thesis by simp
    next
      case ne: False
      show ?thesis
      proof (cases "strip line = []")
        case True
        with "2.IH"(2) ne rec nd td show ?thesis by simp
      next
        case ns: False
        from False have a: "\<not> prefix ''data:'' (strip line)" 
          and b: "\<not> (prefix '':'' (strip line) \<and> sublist ''OPENROUTER'' (upper (strip line))
                \<and> sublist ''PROCESSING'' (upper (strip line)))"
          by (auto simp: first_activity_def)
        from "2.IH"(3)[OF _ _ ne ns a b] rec nd td show ?thesis by simp
      qed
    qed
    then obtain pre t' where p: "rest' = pre @ (t', l) # rest" "first_activity l"
      "\<forall>x\<in>set pre. \<not> first_activity (snd x)" "\<forall>x\<in>set pre. fst x < D" "t' < D" by blast
    with False td nd show ?thesis
      by (intro exI[of _ "(t, line) # pre"] exI[of _ t']) simp
  qed
qed

lemma first_activity_loop_complete:
  "now < D \<Longrightarrow> first_activity l \<Longrightarrow> \<forall>x\<in>set pre. \<not> first_activity (snd x) \<Longrightarrow>
   \<forall>x\<in>set pre. fst x < D \<Longrightarrow> t < D \<Longrightarrow>
   first_activity_loop py T D now (pre @ (t, l) # rest) eos = Inr (l, rest)"
proof (induction pre arbitrary: now)
  case Nil
  then show ?case by (simp add: first_activity_loop_Cons)
next
  case (Cons a pre)
  obtain ta la where a: "a = (ta, la)" by (cases a)
  with Cons.prems have "ta < D" "\<not> first_activity la" by simp_all
  with Cons a show ?case by (simp add: first_activity_loop_Cons)
qed

lemma timed_out_message_names_timeout: "sublist (str_of_float py T) (timed_out_message py T)"
  unfolding timed_out_message_def by (rule sublist_appendI)
lemma ended_message_names_timeout: "sublist (str_of_float py T) (ended_message py T)"
  unfolding ended_message_def by (rule sublist_appendI)

text \<open>
  C3, as the claim states it, fails: the test is made on the line with its surrounding
  whitespace removed, so a line that does not itself start with \<open>data:\<close> is returned when
  its stripped text does, ahead of a later line that starts with \<open>data:\<close>.
\<close>

theorem first_activity_wait_counterexample:
  "wait_for_openrouter_first_activity_line sample_py 1 0 [(0, '' data: a''), (0, ''data: b'')] 0
     = Inr ('' data: a'', [(0, ''data: b'')])
   \<and> \<not> first_activity_literal '' data: a'' \<and> first_activity_literal ''data: b''"
  by code_simp

text \<open>
  C3 (amended). The first-activity wait returns the first stream line whose text, with
  surrounding whitespace removed, starts with \<open>data:\<close> or is a comment starting with \<open>:\<close>
  whose upper-cased text contains both \<open>OPENROUTER\<close> and \<open>PROCESSING\<close>, provided that line
  and every line before it arrive before the deadline; when no such line arrives before the
  deadline (the deadline passes, or the stream ends first) it raises a \<open>TimeoutError\<close>
  whose message contains the configured timeout value; it raises nothing else.
\<close>

theorem wait_for_first_activity_line_correct:
  "(wait_for_openrouter_first_activity_line py timeout_sec now line_iter eos = Inr (l, rest) \<longrightarrow>
      (\<exists>pre t. line_iter = pre @ (t, l) # rest \<and> first_activity l
          \<and> (\<forall>x\<in>set pre. \<not> first_activity (snd x))
          \<and> (\<forall>x\<in>set pre. fst x < now + timeout_sec) \<and> t < now + timeout_sec))
   \<and> (0 < timeout_sec \<and> line_iter = pre @ (t, l) # rest \<and> first_activity l
        \<and> (\<forall>x\<in>set pre. \<not> first_activity (snd x))
        \<and> (\<forall>x\<in>set pre. fst x < now + timeout_sec) \<and> t < now + timeout_sec \<longrightarrow>
      wait_for_openrouter_first_activity_line py timeout_sec now line_iter eos = Inr (l, rest))
   \<and> ((\<forall>x\<in>set line_iter. first_activity (snd x) \<longrightarrow> \<not> fst x < now + timeout_sec) \<longrightarrow>
      (\<exists>m. wait_for_openrouter_first_activity_line py timeout_sec now line_iter eos
              = Inl (TimeoutError m)
           \<and> sublist (str_of_float py timeout_sec) m))
   \<and> (wait_for_openrouter_first_activity_line py timeout_sec now line_iter eos = Inl e \<longrightarrow>
      (\<exists>m. e = TimeoutError m \<and> sublist (str_of_float py timeout_sec) m))"
proof (intro conjI impI)
  assume "wait_for_openrouter_first_activity_line py timeout_sec now line_iter eos = Inr (l, rest)"
  then show "\<exists>pre t. line_iter = pre @ (t, l) # rest \<and> first_activity l
          \<and> (\<forall>x\<in>set pre. \<not> first_activity (snd x))
          \<and> (\<forall>x\<in>set pre. fst x < now + timeout_sec) \<and> t < now + timeout_sec"
    unfolding wait_for_openrouter_first_activity_line_def
    using first_activity_loop_Inr[of py timeout_sec "now + timeout_sec" now line_iter eos l rest]
    by blast
next
  assume "0 < timeout_sec \<and> line_iter = pre @ (t, l) # rest \<and> first_activity l
        \<and> (\<forall>x\<in>set pre. \<not> first_activity (snd x))
        \<and> (\<forall>x\<in>set pre. fst x < now + timeout_sec) \<and> t < now + timeout_sec"
  then show "wait_for_openrouter_first_activity_line py timeout_sec now line_iter eos = Inr (l, rest)"
    unfolding wait_for_openrouter_first_activity_line_def
    by (simp add: first_activity_loop_complete)
next
  have inl: "\<exists>m. e' = TimeoutError m \<and> sublist (str_of_float py timeout_sec) m"
    if "wait_for_openrouter_first_activity_line py timeout_sec now line_iter eos = Inl e'" for e'
    using that first_activity_loop_Inl[of py timeout_sec "now + timeout_sec" now line_iter eos e']
      timed_out_message_names_timeout[of py timeout_sec] ended_message_names_timeout[of py timeout_sec]
    unfolding wait_for_openrouter_first_activity_line_def by auto
  {
    assume "wait_for_openrouter_first_activity_line py timeout_sec now line_iter eos = Inl e"
    then show "\<exists>m. e = TimeoutError m \<and> sublist (str_of_float py timeout_sec) m" by (rule inl)
  }
  assume none: "\<forall>x\<in>set line_iter. first_activity (snd x) \<longrightarrow> \<not> fst x < now + timeout_sec"
  show "\<exists>m. wait_for_openrouter_first_activity_line py timeout_sec now line_iter eos
              = Inl (TimeoutError m)
           \<and> sublist (str_of_float py timeout_sec) m"
  proof (cases "wait_for_openrouter_first_activity_line py timeout_sec now line_iter eos")
    case (Inl e')
    with inl[OF Inl] show ?thesis by auto
  next
    case (Inr r)
    obtain l' rest' where r: "r = (l', rest')" by (cases r)
    from Inr r obtain pre' t' where "line_iter = pre' @ (t', l') # rest'" "first_activity l'"
      "t' < now + timeout_sec"
      unfolding wait_for_openrouter_first_activity_line_def
      by (auto dest: first_activity_loop_Inr)
    with none show ?thesis by auto
  qed
qed

theorem wait_for_first_activity_line_correct_witness:
  "wait_for_openrouter_first_activity_line sample_py (1 / 5) 0
      [(0, ''''), (0, '': OPENROUTER PROCESSING''), (1 / 20, ''data: [DONE]'')] (1 / 20)
     = Inr ('': OPENROUTER PROCESSING'', [(1 / 20, ''data: [DONE]'')])
   \<and> (\<exists>m. wait_for_openrouter_first_activity_line sample_py (1 / 20) 0
             [(1 / 5, '': OPENROUTER PROCESSING''), (1 / 5, ''data: [DONE]'')] (1 / 5)
           = Inl (TimeoutError m) \<and> sublist ''0.05'' m)"
proof -
  have q: "first_activity '': OPENROUTER PROCESSING''" "\<not> first_activity ''''"
    "first_activity ''data: [DONE]''"
    by code_simp+
  have s: "str_of_float sample_py (1 / 20) = ''0.05''"
    by (simp add: sample_py_def sample_str_of_float_def)
  show ?thesis
    using q
      wait_for_first_activity_line_correct[of sample_py "1 / 5" 0
        "[(0, ''''), (0, '': OPENROUTER PROCESSING''), (1 / 20, ''data: [DONE]'')]" "1 / 20"
        "'': OPENROUTER PROCESSING''" "[(1 / 20, ''data: [DONE]'')]" "[(0, '''')]" 0]
      wait_for_first_activity_line_correct[of sample_py "1 / 20" 0
        "[(1 / 5, '': OPENROUTER PROCESSING''), (1 / 5, ''data: [DONE]'')]" "1 / 5"]
    by (simp add: s)
qed

section \<open>Properties of the chat-completions stream\<close>



lemma data_not_comment: "prefix ''data:'' s \<Longrightarrow> \<not> prefix '':'' s \<and> s \<noteq> []"
  by (auto simp: prefix_def)

lemma sse_data_Some: "sse_data line = Some d \<Longrightarrow>
   line \<noteq> [] \<and> strip line \<noteq> [] \<and> \<not> prefix '':'' (strip line) \<and> prefix ''data:'' (strip line)
   \<and> d = lstrip (drop 5 (strip line))"
  using data_not_comment[of "strip line"]
  by (auto simp: sse_data_def split: if_splits)


























section \<open>Properties of the responses stream\<close>





lemma responses_line_data:
  assumes "sse_data line = Some d"
  shows "responses_line py line st =
     (if d = ''[DONE]'' then Inr (Break st)
      else (case json_loads py d of
              Malformed \<Rightarrow>
                Inl (RuntimeError (''OpenRouter responses stream sent invalid JSON event: ''
                       @ take 2000 d))
            | Crashed m \<Rightarrow> Inl (OtherError m)
            | Parsed (PDict event) \<Rightarrow>
                if truthy (dict_get event ''error'')
                then Inl (RuntimeError (''OpenRouter responses stream error: ''
                             @ str_of_val py (dict_get event ''error'')))
                else responses_event py event st
            | Parsed _ \<Rightarrow> Inr (Continue st)))"
proof -
  note f = sse_data_Some[OF assms]
  from f have d: "d = lstrip (drop 5 (strip line))" by simp
  from f show ?thesis unfolding d by (simp add: responses_line_def Let_def)
qed



lemma sse_event_no_data: "sse_data line = None \<Longrightarrow> sse_event py line = None"
  by (simp add: sse_event_def)


lemma responses_line_done: "sse_done line \<Longrightarrow> responses_line py line st = Inr (Break st)"
  using responses_line_data[of line "''[DONE]''" py st] by (simp add: sse_done_def)




















end
